theory Spec2Isabelle
  imports Main "HOL-Library.Sublist"
begin

section \<open>The proxy-config controller (pkg/controller/proxyconfig/controller.go)\<close>

text \<open>
  A shallow embedding of the reconciler of the proxy-config controller. The external
  collaborators of the controller (the object-store client, the status manager, the
  validators that live in other files of the package) are made explicit: the object
  store and the status manager as a state that is passed through every call, the
  validators as the fields of a record of dependencies. Calls to \<^verbatim>\<open>log.Printf\<close>
  and \<^verbatim>\<open>log.Println\<close> have no effect on that state and are left out.
\<close>

subsection \<open>API objects\<close>

text \<open>\<^verbatim>\<open>[]byte\<close>; a Go \<^verbatim>\<open>string\<close> is a byte sequence as well, and the
  conversion \<^verbatim>\<open>string(b)\<close> keeps every byte.\<close>

type_synonym bytes = "char list"

record NamespacedName =
  nn_Namespace :: string
  nn_Name :: string

record ObjectMeta =
  Name :: string
  Namespace :: string

text \<open>\<^verbatim>\<open>corev1.ConfigMap\<close>: the metadata and the \<^verbatim>\<open>Data\<close> map.\<close>

record ConfigMap =
  cm_ObjectMeta :: ObjectMeta
  Data :: "string \<rightharpoonup> string"

record ConfigMapNameReference =
  ref_Name :: string

record ProxySpec =
  HTTPProxy :: string
  HTTPSProxy :: string
  NoProxy :: string
  ReadinessEndpoints :: "string list"
  TrustedCA :: ConfigMapNameReference

record Proxy =
  proxy_ObjectMeta :: ObjectMeta
  Spec :: ProxySpec

record Infrastructure =
  infra_ObjectMeta :: ObjectMeta

record Network =
  net_ObjectMeta :: ObjectMeta

text \<open>\<^verbatim>\<open>reconcile.Request\<close> embeds a \<^verbatim>\<open>types.NamespacedName\<close> and has no
  other field; \<^verbatim>\<open>reconcile.Result{}\<close> is the zero value of its two fields.\<close>

type_synonym Request = NamespacedName

record Result =
  Requeue :: bool
  RequeueAfter :: nat

definition Result_zero :: Result where
  "Result_zero = \<lparr>Requeue = False, RequeueAfter = 0\<rparr>"

subsection \<open>Errors and formatted messages\<close>

text \<open>
  An error is either one of the errors of the object store (not found, already exists,
  any other failure with its text) or the result of \<^verbatim>\<open>fmt.Errorf\<close>, kept as the
  format string with its arguments. \<^verbatim>\<open>fmt.Sprintf\<close> is kept the same way.
\<close>

datatype error =
    NotFoundError NamespacedName
  | AlreadyExistsError NamespacedName
  | OtherError string
  | Errorf string "fmtarg list"
and fmtarg =
    S string
  | E error
  | R NamespacedName

datatype message = Sprintf string "fmtarg list"

text \<open>\<^verbatim>\<open>apierrors.IsNotFound\<close>\<close>

fun IsNotFound :: "error \<Rightarrow> bool" where
  "IsNotFound (NotFoundError _) = True"
| "IsNotFound _ = False"

subsection \<open>Names (pkg/names)\<close>

text \<open>Modelled from the spec: package \<^verbatim>\<open>names\<close> is not among the sources. The values
  are the ones that the doc comments of controller.go give: the derived ConfigMap is
  named "trusted-ca-bundle" in namespace "openshift-config-managed" and has the data key
  "ca-bundle.crt"; the additional trust bundle lives in namespace "openshift-config"; the
  proxy is the cluster-scoped object named "cluster".\<close>

definition TRUSTED_CA_BUNDLE_CONFIGMAP :: string where
  "TRUSTED_CA_BUNDLE_CONFIGMAP = ''trusted-ca-bundle''"

definition TRUSTED_CA_BUNDLE_CONFIGMAP_NS :: string where
  "TRUSTED_CA_BUNDLE_CONFIGMAP_NS = ''openshift-config-managed''"

definition TRUSTED_CA_BUNDLE_CONFIGMAP_KEY :: string where
  "TRUSTED_CA_BUNDLE_CONFIGMAP_KEY = ''ca-bundle.crt''"

definition ADDL_TRUST_BUNDLE_CONFIGMAP_NS :: string where
  "ADDL_TRUST_BUNDLE_CONFIGMAP_NS = ''openshift-config''"

definition PROXY_CONFIG :: string where
  "PROXY_CONFIG = ''cluster''"

definition names_Proxy :: NamespacedName where
  "names_Proxy = \<lparr>nn_Namespace = [], nn_Name = PROXY_CONFIG\<rparr>"

definition names_TrustedCABundleConfigMap :: NamespacedName where
  "names_TrustedCABundleConfigMap =
     \<lparr>nn_Namespace = TRUSTED_CA_BUNDLE_CONFIGMAP_NS, nn_Name = TRUSTED_CA_BUNDLE_CONFIGMAP\<rparr>"

subsection \<open>The object store and the status manager\<close>

text \<open>
  The state outside the reconciler: the objects of the store by kind and identity, the
  identities at which an operation of the store fails with an error other than
  not-found or already-exists (\<open>faults\<close>, with the text of the error), the calls of
  \<^verbatim>\<open>Create\<close> and \<^verbatim>\<open>Update\<close> made so far, and the calls made to the status
  manager so far.
\<close>

datatype verb = Get | Create | Update

datatype kind = ProxyKind | ConfigMapKind | InfrastructureKind | NetworkKind

datatype store_write = Create_call ConfigMap | Update_call ConfigMap

datatype StatusLevel = ProxyConfig

datatype status_call =
    SetDegraded_call StatusLevel string message
  | SetNotDegraded_call StatusLevel

record world =
  proxies :: "NamespacedName \<rightharpoonup> Proxy"
  configMaps :: "NamespacedName \<rightharpoonup> ConfigMap"
  infrastructures :: "NamespacedName \<rightharpoonup> Infrastructure"
  networks :: "NamespacedName \<rightharpoonup> Network"
  faults :: "verb \<Rightarrow> kind \<Rightarrow> NamespacedName \<Rightarrow> string option"
  writes :: "store_write list"
  status :: "status_call list"

definition key_of :: "ObjectMeta \<Rightarrow> NamespacedName" where
  "key_of m = \<lparr>nn_Namespace = Namespace m, nn_Name = Name m\<rparr>"

text \<open>\<^verbatim>\<open>client.Get\<close>, one function for each type of the object that receives the
  result.\<close>

definition client_Get :: "world \<Rightarrow> kind \<Rightarrow> (NamespacedName \<rightharpoonup> 'a) \<Rightarrow> NamespacedName \<Rightarrow> error + 'a" where
  "client_Get w k objs key =
     (case faults w Get k key of
        Some m \<Rightarrow> Inl (OtherError m)
      | None \<Rightarrow> (case objs key of None \<Rightarrow> Inl (NotFoundError key) | Some obj \<Rightarrow> Inr obj))"

definition client_Get_Proxy :: "world \<Rightarrow> NamespacedName \<Rightarrow> error + Proxy" where
  "client_Get_Proxy w key = client_Get w ProxyKind (proxies w) key"

definition client_Get_ConfigMap :: "world \<Rightarrow> NamespacedName \<Rightarrow> error + ConfigMap" where
  "client_Get_ConfigMap w key = client_Get w ConfigMapKind (configMaps w) key"

definition client_Get_Infrastructure :: "world \<Rightarrow> NamespacedName \<Rightarrow> error + Infrastructure" where
  "client_Get_Infrastructure w key = client_Get w InfrastructureKind (infrastructures w) key"

definition client_Get_Network :: "world \<Rightarrow> NamespacedName \<Rightarrow> error + Network" where
  "client_Get_Network w key = client_Get w NetworkKind (networks w) key"

text \<open>\<^verbatim>\<open>client.Create\<close> and \<^verbatim>\<open>client.Update\<close> of a ConfigMap. Every call is
  recorded, whether it succeeds or not.\<close>

definition client_Create :: "ConfigMap \<Rightarrow> world \<Rightarrow> error option \<times> world" where
  "client_Create cm w =
     (let key = key_of (cm_ObjectMeta cm);
          w1 = w\<lparr>writes := writes w @ [Create_call cm]\<rparr>
      in case faults w Create ConfigMapKind key of
           Some m \<Rightarrow> (Some (OtherError m), w1)
         | None \<Rightarrow>
             (case configMaps w key of
                Some _ \<Rightarrow> (Some (AlreadyExistsError key), w1)
              | None \<Rightarrow> (None, w1\<lparr>configMaps := (configMaps w)(key \<mapsto> cm)\<rparr>)))"

definition client_Update :: "ConfigMap \<Rightarrow> world \<Rightarrow> error option \<times> world" where
  "client_Update cm w =
     (let key = key_of (cm_ObjectMeta cm);
          w1 = w\<lparr>writes := writes w @ [Update_call cm]\<rparr>
      in case faults w Update ConfigMapKind key of
           Some m \<Rightarrow> (Some (OtherError m), w1)
         | None \<Rightarrow>
             (case configMaps w key of
                None \<Rightarrow> (Some (NotFoundError key), w1)
              | Some _ \<Rightarrow> (None, w1\<lparr>configMaps := (configMaps w)(key \<mapsto> cm)\<rparr>)))"

text \<open>\<^verbatim>\<open>r.status.SetDegraded\<close> and \<^verbatim>\<open>r.status.SetNotDegraded\<close>\<close>

definition SetDegraded :: "StatusLevel \<Rightarrow> string \<Rightarrow> message \<Rightarrow> world \<Rightarrow> world" where
  "SetDegraded lvl reason msg w = w\<lparr>status := status w @ [SetDegraded_call lvl reason msg]\<rparr>"

definition SetNotDegraded :: "StatusLevel \<Rightarrow> world \<Rightarrow> world" where
  "SetNotDegraded lvl w = w\<lparr>status := status w @ [SetNotDegraded_call lvl]\<rparr>"

subsection \<open>The methods of the reconciler that other files define\<close>

text \<open>
  The receiver \<^verbatim>\<open>r\<close>. The validators and \<^verbatim>\<open>syncProxyStatus\<close> are methods of the
  reconciler defined outside controller.go, and the two names \<^verbatim>\<open>names.CLUSTER_CONFIG\<close>
  and \<^verbatim>\<open>names.SYSTEM_TRUST_BUNDLE\<close> have no value in controller.go: all of them are
  parameters. The validators read the world and return a result; only
  \<^verbatim>\<open>syncProxyStatus\<close>, which updates the status of the proxy object, returns a new
  world.
\<close>

record reconciler =
  ValidateProxyConfig :: "world \<Rightarrow> ProxySpec \<Rightarrow> error option"
  validateTrustedCA :: "world \<Rightarrow> string \<Rightarrow> error + (bytes \<times> bytes)"
  validateTrustBundle :: "ConfigMap \<Rightarrow> error + (bytes list \<times> bytes)"
  validateSystemTrustBundle :: "string \<Rightarrow> error + bytes"
  syncProxyStatus :: "Proxy \<Rightarrow> Infrastructure \<Rightarrow> Network \<Rightarrow> ConfigMap \<Rightarrow> world \<Rightarrow> error option \<times> world"
  CLUSTER_CONFIG :: string
  SYSTEM_TRUST_BUNDLE :: string

subsection \<open>The helpers of controller.go\<close>

definition isSpecHTTPProxySet :: "ProxySpec \<Rightarrow> bool" where
  "isSpecHTTPProxySet proxyConfig = (length (HTTPProxy proxyConfig) > 0)"

definition isSpecHTTPSProxySet :: "ProxySpec \<Rightarrow> bool" where
  "isSpecHTTPSProxySet proxyConfig = (length (HTTPSProxy proxyConfig) > 0)"

definition isSpecNoProxySet :: "ProxySpec \<Rightarrow> bool" where
  "isSpecNoProxySet proxyConfig = (length (NoProxy proxyConfig) > 0)"

definition isSpecReadinessEndpointsSet :: "ProxySpec \<Rightarrow> bool" where
  "isSpecReadinessEndpointsSet proxyConfig = (length (ReadinessEndpoints proxyConfig) > 0)"

definition isSpecTrustedCASet :: "ProxySpec \<Rightarrow> bool" where
  "isSpecTrustedCASet proxyConfig = (length (ref_Name (TrustedCA proxyConfig)) > 0)"

text \<open>Indexing a Go map: a key that is absent (also in a nil map) reads as the zero
  value, the empty string.\<close>

definition index_map :: "(string \<rightharpoonup> string) \<Rightarrow> string \<Rightarrow> string" where
  "index_map m key = (case m key of None \<Rightarrow> [] | Some v \<Rightarrow> v)"

definition configMapsEqual :: "string \<Rightarrow> ConfigMap \<Rightarrow> ConfigMap \<Rightarrow> bool" where
  "configMapsEqual key a b = (index_map (Data a) key = index_map (Data b) key)"

text \<open>The loop \<^verbatim>\<open>for _, d := range data { combined = append(combined, d) }\<close>\<close>

fun append_range :: "bytes \<Rightarrow> bytes \<Rightarrow> bytes" where
  "append_range combined [] = combined"
| "append_range combined (d # ds) = append_range (combined @ [d]) ds"

definition mergeTrustBundlesToConfigMap :: "reconciler \<Rightarrow> bytes \<Rightarrow> bytes \<Rightarrow> error + ConfigMap" where
  "mergeTrustBundlesToConfigMap r additionalData systemData =
     (if length additionalData = 0 then
        Inl (Errorf ''failed to merge ca bundles, additional trust bundle is empty'' [])
      else if length systemData = 0 then
        Inl (Errorf ''failed to merge ca bundles, system trust bundle is empty'' [])
      else
        let combinedTrustData = append_range (append_range [] additionalData) systemData;
            mergedCfgMap =
              \<lparr>cm_ObjectMeta =
                 \<lparr>Name = TRUSTED_CA_BUNDLE_CONFIGMAP, Namespace = TRUSTED_CA_BUNDLE_CONFIGMAP_NS\<rparr>,
               Data = [TRUSTED_CA_BUNDLE_CONFIGMAP_KEY \<mapsto> combinedTrustData]\<rparr>
        in case validateTrustBundle r mergedCfgMap of
             Inl err \<Rightarrow>
               Inl (Errorf ''failed to validate merged configmap '%s/%s': %v''
                      [S (Namespace (cm_ObjectMeta mergedCfgMap)),
                       S (Name (cm_ObjectMeta mergedCfgMap)), E err])
           | Inr _ \<Rightarrow> Inr mergedCfgMap)"

definition generateSystemTrustBundle :: "reconciler \<Rightarrow> error + ConfigMap" where
  "generateSystemTrustBundle r =
     (case validateSystemTrustBundle r (SYSTEM_TRUST_BUNDLE r) of
        Inl err \<Rightarrow>
          Inl (Errorf ''failed to validate trust bundle %s: %v'' [S (SYSTEM_TRUST_BUNDLE r), E err])
      | Inr bundleData \<Rightarrow>
          Inr \<lparr>cm_ObjectMeta =
                 \<lparr>Name = TRUSTED_CA_BUNDLE_CONFIGMAP, Namespace = TRUSTED_CA_BUNDLE_CONFIGMAP_NS\<rparr>,
               Data = [TRUSTED_CA_BUNDLE_CONFIGMAP_KEY \<mapsto> bundleData]\<rparr>)"

text \<open>The message of the error ends in a quote, which is the character 0x27.\<close>

definition configMapIsProxyTrustedCA :: "world \<Rightarrow> string \<Rightarrow> error option" where
  "configMapIsProxyTrustedCA w cfgMapName =
     (case client_Get_Proxy w names_Proxy of
        Inl err \<Rightarrow> Some (Errorf ''failed to get proxy '%s': %v'' [S PROXY_CONFIG, E err])
      | Inr proxyConfig \<Rightarrow>
          if ref_Name (TrustedCA (Spec proxyConfig)) \<noteq> cfgMapName then
            Some (Errorf (''configmap name '%s' does not match proxy trustedCA name '%s'' @ [CHR 0x27])
                    [S cfgMapName, S (ref_Name (TrustedCA (Spec proxyConfig)))])
          else None)"

text \<open>The zero value \<^verbatim>\<open>&corev1.ConfigMap{}\<close>, which a failed \<^verbatim>\<open>Get\<close> leaves as
  it is.\<close>

definition ConfigMap_zero :: ConfigMap where
  "ConfigMap_zero = \<lparr>cm_ObjectMeta = \<lparr>Name = [], Namespace = []\<rparr>, Data = Map.empty\<rparr>"

definition syncTrustedCABundle :: "ConfigMap \<Rightarrow> world \<Rightarrow> error option \<times> world" where
  "syncTrustedCABundle trustedCABundle w =
     (let fetched = client_Get_ConfigMap w names_TrustedCABundleConfigMap;
          currentCfgMap =
            (case fetched of
               Inl _ \<Rightarrow> ConfigMap_zero
             | Inr cm \<Rightarrow> cm);
          compare = (\<lambda>w1.
            if \<not> configMapsEqual TRUSTED_CA_BUNDLE_CONFIGMAP_KEY currentCfgMap trustedCABundle then
              (case client_Update trustedCABundle w1 of
                 (Some err, w2) \<Rightarrow>
                   (Some (Errorf ''failed to update trusted CA bundle configmap '%s/%s': %v''
                            [S (Namespace (cm_ObjectMeta trustedCABundle)),
                             S (Name (cm_ObjectMeta trustedCABundle)), E err]), w2)
               | (None, w2) \<Rightarrow> (None, w2))
            else (None, w1))
      in case fetched of
           Inl err \<Rightarrow>
             if \<not> IsNotFound err then
               (Some (Errorf ''failed to get trusted CA bundle configmap '%s/%s': %v''
                        [S (Namespace (cm_ObjectMeta trustedCABundle)),
                         S (Name (cm_ObjectMeta trustedCABundle)), E err]), w)
             else
               (case client_Create trustedCABundle w of
                  (Some err, w1) \<Rightarrow>
                    (Some (Errorf ''failed to create trusted CA bundle configmap '%s/%s': %v''
                             [S (Namespace (cm_ObjectMeta trustedCABundle)),
                              S (Name (cm_ObjectMeta trustedCABundle)), E err]), w1)
                | (None, w1) \<Rightarrow> compare w1)
         | Inr _ \<Rightarrow> compare w)"

subsection \<open>Reconcile\<close>

text \<open>
  The \<^verbatim>\<open>switch\<close> of \<^verbatim>\<open>Reconcile\<close> either returns from the function or falls
  through to the synchronisation with the variable \<^verbatim>\<open>trustBundle\<close> set.
\<close>

datatype 'a flow = Return Result "error option" | Proceed 'a

text \<open>The first case of the switch: \<^verbatim>\<open>request.NamespacedName == names.Proxy()\<close>.\<close>

definition Reconcile_proxy :: "reconciler \<Rightarrow> Request \<Rightarrow> world \<Rightarrow> ConfigMap flow \<times> world" where
  "Reconcile_proxy r request w =
     (case client_Get_Proxy w request of
        Inl err \<Rightarrow>
          if IsNotFound err then (Return Result_zero None, w)
          else (Return Result_zero
                  (Some (Errorf ''failed to get proxy '%s': %v'' [S (nn_Name request), E err])), w)
      | Inr proxyConfig \<Rightarrow>
          let validate =
                (if \<not> isSpecHTTPProxySet (Spec proxyConfig) \<and>
                    \<not> isSpecHTTPSProxySet (Spec proxyConfig) \<and>
                    \<not> isSpecNoProxySet (Spec proxyConfig)
                 then False else True);
              proxyName = Name (proxy_ObjectMeta proxyConfig)
          in case (if validate then ValidateProxyConfig r w (Spec proxyConfig) else None) of
               Some err \<Rightarrow>
                 (Return Result_zero
                    (Some (Errorf ''failed to validate proxy '%s': %v'' [S proxyName, E err])),
                  SetDegraded ProxyConfig ''InvalidProxyConfig''
                    (Sprintf ''The configuration is invalid for proxy '%s' (%v). Use 'oc edit proxy.config.openshift.io %s' to fix.''
                       [S proxyName, E err, S proxyName]) w)
             | None \<Rightarrow>
                 (case
                    (if \<not> isSpecTrustedCASet (Spec proxyConfig) then
                       (case generateSystemTrustBundle r of
                          Inl err \<Rightarrow>
                            (Return Result_zero
                               (Some (Errorf ''failed to generate system trust bundle configmap '%s/%s': %v''
                                        [S TRUSTED_CA_BUNDLE_CONFIGMAP_NS, S TRUSTED_CA_BUNDLE_CONFIGMAP, E err])),
                             SetDegraded ProxyConfig ''GenerateConfigMapFailure''
                               (Sprintf ''failed to generate system trust bundle configmap '%s/%s (%v).''
                                  [S TRUSTED_CA_BUNDLE_CONFIGMAP_NS, S TRUSTED_CA_BUNDLE_CONFIGMAP, E err]) w)
                        | Inr trustBundle \<Rightarrow> (Proceed trustBundle, w))
                     else
                       (case validateTrustedCA r w (ref_Name (TrustedCA (Spec proxyConfig))) of
                          Inl err \<Rightarrow>
                            (Return Result_zero
                               (Some (Errorf ''failed to validate trustedCA for proxy '%s': %v''
                                        [S proxyName, E err])),
                             SetDegraded ProxyConfig ''InvalidProxyConfig''
                               (Sprintf ''The configuration is invalid for proxy '%s' (%v). Use 'oc edit proxy.config.openshift.io %s' to fix.''
                                  [S proxyName, E err, S proxyName]) w)
                        | Inr (proxyData, systemData) \<Rightarrow>
                            (case mergeTrustBundlesToConfigMap r proxyData systemData of
                               Inl err \<Rightarrow>
                                 (Return Result_zero
                                    (Some (Errorf ''failed to merge trustedCA and system bundles for proxy '%s': %v''
                                             [S proxyName, E err])),
                                  SetDegraded ProxyConfig ''ProxyCAMergeFailure''
                                    (Sprintf ''The configuration is invalid for proxy '%s' (%v). Use 'oc edit proxy.config.openshift.io %s' to fix.''
                                       [S proxyName, E err, S proxyName]) w)
                             | Inr trustBundle \<Rightarrow> (Proceed trustBundle, w))))
                  of
                    (Return res e, w1) \<Rightarrow> (Return res e, w1)
                  | (Proceed trustBundle, w1) \<Rightarrow>
                      (case client_Get_Infrastructure w1 \<lparr>nn_Namespace = [], nn_Name = CLUSTER_CONFIG r\<rparr> of
                         Inl err \<Rightarrow>
                           (Return Result_zero
                              (Some (Errorf ''failed to get infrastructure config '%s': %v''
                                       [S (CLUSTER_CONFIG r), E err])),
                            SetDegraded ProxyConfig ''InfraConfigError''
                              (Sprintf ''Error getting infrastructure config %s: %v''
                                 [S (CLUSTER_CONFIG r), E err]) w1)
                       | Inr infraConfig \<Rightarrow>
                           (case client_Get_Network w1 \<lparr>nn_Namespace = [], nn_Name = CLUSTER_CONFIG r\<rparr> of
                              Inl err \<Rightarrow>
                                (Return Result_zero
                                   (Some (Errorf ''failed to get network config '%s': %v''
                                            [S (CLUSTER_CONFIG r), E err])),
                                 SetDegraded ProxyConfig ''NetworkConfigError''
                                   (Sprintf ''Error getting network config '%s': %v.''
                                      [S (CLUSTER_CONFIG r), E err]) w1)
                            | Inr netConfig \<Rightarrow>
                                (case client_Get_ConfigMap w1
                                        \<lparr>nn_Namespace = ''kube-system'', nn_Name = ''cluster-config-v1''\<rparr> of
                                   Inl err \<Rightarrow>
                                     (Return Result_zero
                                        (Some (Errorf ''failed to get configmap '%s/%s': %v''
                                                 [S (Namespace (cm_ObjectMeta ConfigMap_zero)),
                                                  S (Name (cm_ObjectMeta ConfigMap_zero)), E err])),
                                      SetDegraded ProxyConfig ''ClusterConfigError''
                                        (Sprintf ''Error getting cluster config configmap '%s/%s': %v.''
                                           [S (Namespace (cm_ObjectMeta ConfigMap_zero)),
                                            S (Name (cm_ObjectMeta ConfigMap_zero)), E err]) w1)
                                 | Inr clusterConfig \<Rightarrow>
                                     (case syncProxyStatus r proxyConfig infraConfig netConfig clusterConfig w1 of
                                        (Some err, w2) \<Rightarrow>
                                          (Return Result_zero
                                             (Some (Errorf ''failed to sync proxy '%s': %v''
                                                      [S PROXY_CONFIG, E err])),
                                           SetDegraded ProxyConfig ''StatusError''
                                             (Sprintf ''Could not update proxy '%s' status: %v''
                                                [S proxyName, E err]) w2)
                                      | (None, w2) \<Rightarrow> (Proceed trustBundle, w2)))))))"

text \<open>The second case of the switch:
  \<^verbatim>\<open>request.Namespace == names.ADDL_TRUST_BUNDLE_CONFIGMAP_NS\<close>.\<close>

definition Reconcile_configmap :: "reconciler \<Rightarrow> Request \<Rightarrow> world \<Rightarrow> ConfigMap flow \<times> world" where
  "Reconcile_configmap r request w =
     (case client_Get_ConfigMap w request of
        Inl err \<Rightarrow>
          if IsNotFound err then (Return Result_zero None, w)
          else (Return Result_zero
                  (Some (Errorf ''failed to get configmap '%s': %v'' [R request, E err])), w)
      | Inr trustBundle \<Rightarrow>
          (case configMapIsProxyTrustedCA w (Name (cm_ObjectMeta trustBundle)) of
             Some err \<Rightarrow> (Return Result_zero None, w)
           | None \<Rightarrow>
               (case validateTrustedCA r w (Name (cm_ObjectMeta trustBundle)) of
                  Inl err \<Rightarrow>
                    (Return Result_zero
                       (Some (Errorf ''failed to validate additional trust bundle configmap '%s/%s': %v''
                                [S (Namespace (cm_ObjectMeta trustBundle)),
                                 S (Name (cm_ObjectMeta trustBundle)), E err])),
                     SetDegraded ProxyConfig ''TrustBundleValidationFailure''
                       (Sprintf ''Failed to validate additional trust bundle configmap '%s/%s' (%v)''
                          [S (Namespace (cm_ObjectMeta trustBundle)),
                           S (Name (cm_ObjectMeta trustBundle)), E err]) w)
                | Inr (proxyData, systemData) \<Rightarrow>
                    (case mergeTrustBundlesToConfigMap r proxyData systemData of
                       Inl err \<Rightarrow>
                         (Return Result_zero
                            (Some (Errorf ''failed to merge trustedCA and system bundles for proxy '%s': %v''
                                     [S PROXY_CONFIG, E err])),
                          SetDegraded ProxyConfig ''EnsureProxyConfigFailure''
                            (Sprintf ''The configuration is invalid for proxy '%s' (%v). Use 'oc edit proxy.config.openshift.io %s' to fix.''
                               [S PROXY_CONFIG, E err, S PROXY_CONFIG]) w)
                     | Inr merged \<Rightarrow>
                         (case client_Get_Proxy w names_Proxy of
                            Inl err \<Rightarrow>
                              if IsNotFound err then (Return Result_zero None, w)
                              else (Return Result_zero
                                      (Some (Errorf ''failed to get proxy '%s': %v''
                                               [S (nn_Name request), E err])), w)
                          | Inr proxyConfig \<Rightarrow>
                              let validate =
                                    (if \<not> isSpecHTTPProxySet (Spec proxyConfig) \<and>
                                        \<not> isSpecHTTPSProxySet (Spec proxyConfig) \<and>
                                        \<not> isSpecNoProxySet (Spec proxyConfig)
                                     then False else True);
                                  proxyName = Name (proxy_ObjectMeta proxyConfig)
                              in case (if validate then ValidateProxyConfig r w (Spec proxyConfig) else None) of
                                   Some err \<Rightarrow>
                                     (Return Result_zero
                                        (Some (Errorf ''failed to validate proxy '%s': %v'' [S proxyName, E err])),
                                      SetDegraded ProxyConfig ''InvalidProxyConfig''
                                        (Sprintf ''The configuration is invalid for proxy '%s' (%v). Use 'oc edit proxy.config.openshift.io %s' to fix.''
                                           [S proxyName, E err, S proxyName]) w)
                                 | None \<Rightarrow>
                                     if \<not> isSpecTrustedCASet (Spec proxyConfig) then
                                       (case generateSystemTrustBundle r of
                                          Inl err \<Rightarrow>
                                            (Return Result_zero
                                               (Some (Errorf ''failed to generate system trust bundle configmap '%s/%s': %v''
                                                        [S TRUSTED_CA_BUNDLE_CONFIGMAP_NS, S TRUSTED_CA_BUNDLE_CONFIGMAP, E err])),
                                             SetDegraded ProxyConfig ''GenerateConfigMapFailure''
                                               (Sprintf ''failed to generate system trust bundle configmap '%s/%s (%v).''
                                                  [S TRUSTED_CA_BUNDLE_CONFIGMAP_NS, S TRUSTED_CA_BUNDLE_CONFIGMAP, E err]) w)
                                        | Inr generated \<Rightarrow> (Proceed generated, w))
                                     else
                                       (case validateTrustedCA r w (ref_Name (TrustedCA (Spec proxyConfig))) of
                                          Inl err \<Rightarrow>
                                            (Return Result_zero
                                               (Some (Errorf ''failed to validate trustedCA for proxy '%s': %v''
                                                        [S proxyName, E err])),
                                             SetDegraded ProxyConfig ''InvalidProxyConfig''
                                               (Sprintf ''The configuration is invalid for proxy '%s' (%v). Use 'oc edit proxy.config.openshift.io %s' to fix.''
                                                  [S proxyName, E err, S proxyName]) w)
                                        | Inr (proxyData2, systemData2) \<Rightarrow>
                                            (case mergeTrustBundlesToConfigMap r proxyData2 systemData2 of
                                               Inl err \<Rightarrow>
                                                 (Return Result_zero
                                                    (Some (Errorf ''failed to merge trustedCA and system bundles for proxy '%s': %v''
                                                             [S proxyName, E err])),
                                                  SetDegraded ProxyConfig ''ProxyCAMergeFailure''
                                                    (Sprintf ''The configuration is invalid for proxy '%s' (%v). Use 'oc edit proxy.config.openshift.io %s' to fix.''
                                                       [S proxyName, E err, S proxyName]) w)
                                             | Inr merged2 \<Rightarrow> (Proceed merged2, w))))))))"

text \<open>The switch with its default case.\<close>

definition Reconcile_switch :: "reconciler \<Rightarrow> Request \<Rightarrow> world \<Rightarrow> ConfigMap flow \<times> world" where
  "Reconcile_switch r request w =
     (if request = names_Proxy then Reconcile_proxy r request w
      else if nn_Namespace request = ADDL_TRUST_BUNDLE_CONFIGMAP_NS then Reconcile_configmap r request w
      else (Return Result_zero None, w))"

text \<open>The statements after the switch: the synchronisation of the trust bundle and the
  report to the status manager.\<close>

definition Reconcile_sync :: "ConfigMap \<Rightarrow> world \<Rightarrow> (Result \<times> error option) \<times> world" where
  "Reconcile_sync trustBundle w =
     (case syncTrustedCABundle trustBundle w of
        (Some err, w1) \<Rightarrow>
          ((Result_zero,
            Some (Errorf ''failed to sync additional trust bundle configmap %s/%s: %v''
                    [S (Namespace (cm_ObjectMeta trustBundle)),
                     S (Name (cm_ObjectMeta trustBundle)), E err])),
           SetDegraded ProxyConfig ''TrustBundleSyncFailure''
             (Sprintf ''Additional trust bundle configmap '%s/%s' not synced (%v)''
                [S (Namespace (cm_ObjectMeta trustBundle)),
                 S (Name (cm_ObjectMeta trustBundle)), E err]) w1)
      | (None, w1) \<Rightarrow> ((Result_zero, None), SetNotDegraded ProxyConfig w1))"

definition Reconcile :: "reconciler \<Rightarrow> Request \<Rightarrow> world \<Rightarrow> (Result \<times> error option) \<times> world" where
  "Reconcile r request w =
     (case Reconcile_switch r request w of
        (Return res err, w1) \<Rightarrow> ((res, err), w1)
      | (Proceed trustBundle, w1) \<Rightarrow> Reconcile_sync trustBundle w1)"

subsection \<open>Example inputs\<close>

text \<open>
  A concrete reconciler and a concrete world, at which the theorems below are
  instantiated. The example validators are stand-ins of the simplest kind: the proxy
  validator rejects the URL "not-a-url", the trusted-CA validator reads the key
  "ca-bundle.crt" of the named ConfigMap in "openshift-config" and pairs it with a fixed
  system bundle, the trust-bundle validator accepts every ConfigMap, and
  \<^verbatim>\<open>syncProxyStatus\<close> succeeds without a change.
\<close>

definition example_reconciler :: reconciler where
  "example_reconciler =
     \<lparr>ValidateProxyConfig =
        (\<lambda>w spec. if HTTPProxy spec = ''not-a-url''
                   then Some (OtherError ''httpProxy is not a URL'') else None),
      validateTrustedCA =
        (\<lambda>w cfgMapName.
           case client_Get_ConfigMap w
                  \<lparr>nn_Namespace = ADDL_TRUST_BUNDLE_CONFIGMAP_NS, nn_Name = cfgMapName\<rparr> of
             Inl err \<Rightarrow> Inl err
           | Inr cm \<Rightarrow> Inr (index_map (Data cm) TRUSTED_CA_BUNDLE_CONFIGMAP_KEY, ''SYSTEM'')),
      validateTrustBundle =
        (\<lambda>cm. Inr ([], index_map (Data cm) TRUSTED_CA_BUNDLE_CONFIGMAP_KEY)),
      validateSystemTrustBundle = (\<lambda>path. Inr ''SYSTEM''),
      syncProxyStatus = (\<lambda>proxy infra network clusterConfig w. (None, w)),
      CLUSTER_CONFIG = ''cluster'',
      SYSTEM_TRUST_BUNDLE = ''/etc/pki/ca-trust/extracted/pem/tls-ca-bundle.pem''\<rparr>"

definition example_proxy :: Proxy where
  "example_proxy =
     \<lparr>proxy_ObjectMeta = \<lparr>Name = ''cluster'', Namespace = []\<rparr>,
      Spec = \<lparr>HTTPProxy = ''http://proxy.example.com:3128'', HTTPSProxy = [], NoProxy = [],
              ReadinessEndpoints = [], TrustedCA = \<lparr>ref_Name = ''custom-ca''\<rparr>\<rparr>\<rparr>"

definition example_proxy_unset :: Proxy where
  "example_proxy_unset =
     \<lparr>proxy_ObjectMeta = \<lparr>Name = ''cluster'', Namespace = []\<rparr>,
      Spec = \<lparr>HTTPProxy = [], HTTPSProxy = [], NoProxy = [],
              ReadinessEndpoints = [''::not an endpoint::''], TrustedCA = \<lparr>ref_Name = []\<rparr>\<rparr>\<rparr>"

definition example_proxy_invalid :: Proxy where
  "example_proxy_invalid =
     \<lparr>proxy_ObjectMeta = \<lparr>Name = ''cluster'', Namespace = []\<rparr>,
      Spec = \<lparr>HTTPProxy = ''not-a-url'', HTTPSProxy = [], NoProxy = [],
              ReadinessEndpoints = [], TrustedCA = \<lparr>ref_Name = []\<rparr>\<rparr>\<rparr>"

definition example_source :: ConfigMap where
  "example_source =
     \<lparr>cm_ObjectMeta = \<lparr>Name = ''custom-ca'', Namespace = ''openshift-config''\<rparr>,
      Data = [''ca-bundle.crt'' \<mapsto> ''CUSTOM'']\<rparr>"

definition example_other :: ConfigMap where
  "example_other =
     \<lparr>cm_ObjectMeta = \<lparr>Name = ''other-ca'', Namespace = ''openshift-config''\<rparr>,
      Data = [''ca-bundle.crt'' \<mapsto> ''OTHER'']\<rparr>"

definition example_cluster_config :: ConfigMap where
  "example_cluster_config =
     \<lparr>cm_ObjectMeta = \<lparr>Name = ''cluster-config-v1'', Namespace = ''kube-system''\<rparr>,
      Data = Map.empty\<rparr>"

definition example_candidate :: ConfigMap where
  "example_candidate =
     \<lparr>cm_ObjectMeta =
        \<lparr>Name = TRUSTED_CA_BUNDLE_CONFIGMAP, Namespace = TRUSTED_CA_BUNDLE_CONFIGMAP_NS\<rparr>,
      Data = [TRUSTED_CA_BUNDLE_CONFIGMAP_KEY \<mapsto> ''CUSTOMSYSTEM'']\<rparr>"

text \<open>A world in which the derived ConfigMap does not exist yet.\<close>

definition example_world :: world where
  "example_world =
     \<lparr>proxies = [names_Proxy \<mapsto> example_proxy],
      configMaps =
        [\<lparr>nn_Namespace = ''openshift-config'', nn_Name = ''custom-ca''\<rparr> \<mapsto> example_source,
         \<lparr>nn_Namespace = ''openshift-config'', nn_Name = ''other-ca''\<rparr> \<mapsto> example_other,
         \<lparr>nn_Namespace = ''kube-system'', nn_Name = ''cluster-config-v1''\<rparr> \<mapsto> example_cluster_config],
      infrastructures =
        [\<lparr>nn_Namespace = [], nn_Name = ''cluster''\<rparr>
           \<mapsto> \<lparr>infra_ObjectMeta = \<lparr>Name = ''cluster'', Namespace = []\<rparr>\<rparr>],
      networks =
        [\<lparr>nn_Namespace = [], nn_Name = ''cluster''\<rparr>
           \<mapsto> \<lparr>net_ObjectMeta = \<lparr>Name = ''cluster'', Namespace = []\<rparr>\<rparr>],
      faults = (\<lambda>v k key. None),
      writes = [],
      status = []\<rparr>"

section \<open>Helper facts\<close>

lemma append_range_eq: "append_range combined ds = combined @ ds"
  by (induction ds arbitrary: combined) simp_all

lemma addl_ns_not_proxy:
  "nn_Namespace request = ADDL_TRUST_BUNDLE_CONFIGMAP_NS \<Longrightarrow> request \<noteq> names_Proxy"
  by (auto simp: names_Proxy_def ADDL_TRUST_BUNDLE_CONFIGMAP_NS_def)

lemma merge_ValidateProxyConfig_update:
  "mergeTrustBundlesToConfigMap (r\<lparr>ValidateProxyConfig := v\<rparr>) a s = mergeTrustBundlesToConfigMap r a s"
  by (simp add: mergeTrustBundlesToConfigMap_def)

lemma generate_ValidateProxyConfig_update:
  "generateSystemTrustBundle (r\<lparr>ValidateProxyConfig := v\<rparr>) = generateSystemTrustBundle r"
  by (simp add: generateSystemTrustBundle_def cong: sum.case_cong)

lemma merge_validateSystemTrustBundle_update:
  "mergeTrustBundlesToConfigMap (r\<lparr>validateSystemTrustBundle := v\<rparr>) a s = mergeTrustBundlesToConfigMap r a s"
  by (simp add: mergeTrustBundlesToConfigMap_def)

text \<open>What the two cases of the switch have computed when they fall through to the
  synchronisation.\<close>

lemma Reconcile_proxy_Proceed:
  assumes "Reconcile_proxy r request w = (Proceed tb, w')"
  shows "\<exists>p. client_Get_Proxy w request = Inr p \<and>
           (if isSpecTrustedCASet (Spec p)
            then \<exists>a s. validateTrustedCA r w (ref_Name (TrustedCA (Spec p))) = Inr (a, s)
                      \<and> mergeTrustBundlesToConfigMap r a s = Inr tb
            else generateSystemTrustBundle r = Inr tb)"
  using assms
  by (auto simp: Reconcile_proxy_def Let_def
      split: sum.splits option.splits if_splits prod.splits flow.splits)

lemma Reconcile_configmap_Proceed:
  assumes "Reconcile_configmap r request w = (Proceed tb, w')"
  shows "\<exists>p. client_Get_Proxy w names_Proxy = Inr p \<and>
           (if isSpecTrustedCASet (Spec p)
            then \<exists>a s. validateTrustedCA r w (ref_Name (TrustedCA (Spec p))) = Inr (a, s)
                      \<and> mergeTrustBundlesToConfigMap r a s = Inr tb
            else generateSystemTrustBundle r = Inr tb)"
  using assms
  by (auto simp: Reconcile_configmap_def Let_def
      split: sum.splits option.splits if_splits prod.splits flow.splits)

text \<open>The synchronisation when the derived ConfigMap is there with the data of the
  candidate, and the store after a synchronisation that succeeded.\<close>

lemma syncTrustedCABundle_found_equal:
  assumes "client_Get_ConfigMap w names_TrustedCABundleConfigMap = Inr cur"
    and "index_map (Data cur) TRUSTED_CA_BUNDLE_CONFIGMAP_KEY
         = index_map (Data c) TRUSTED_CA_BUNDLE_CONFIGMAP_KEY"
  shows "syncTrustedCABundle c w = (None, w)"
  using assms by (simp add: syncTrustedCABundle_def configMapsEqual_def Let_def)

lemma syncTrustedCABundle_success_stored:
  assumes "syncTrustedCABundle c w = (None, w')"
    and "key_of (cm_ObjectMeta c) = names_TrustedCABundleConfigMap"
  shows "\<exists>cur. client_Get_ConfigMap w' names_TrustedCABundleConfigMap = Inr cur
           \<and> index_map (Data cur) TRUSTED_CA_BUNDLE_CONFIGMAP_KEY
               = index_map (Data c) TRUSTED_CA_BUNDLE_CONFIGMAP_KEY"
  using assms
  by (auto simp: syncTrustedCABundle_def configMapsEqual_def Let_def client_Get_ConfigMap_def
      client_Get_def client_Create_def client_Update_def
      split: sum.splits option.splits if_splits prod.splits)

text \<open>The calls of a synchronisation that finds no derived ConfigMap, when the store
  accepts the writes: for a candidate with a non-empty value at the key "ca-bundle.crt"
  they are a \<^verbatim>\<open>Create\<close> followed by an \<^verbatim>\<open>Update\<close>.\<close>

lemma syncTrustedCABundle_not_found_writes:
  assumes "client_Get_ConfigMap w names_TrustedCABundleConfigMap = Inl err"
    and "IsNotFound err"
    and "faults w Create ConfigMapKind (key_of (cm_ObjectMeta c)) = None"
    and "faults w Update ConfigMapKind (key_of (cm_ObjectMeta c)) = None"
    and "configMaps w (key_of (cm_ObjectMeta c)) = None"
    and "index_map (Data c) TRUSTED_CA_BUNDLE_CONFIGMAP_KEY \<noteq> []"
  shows "fst (syncTrustedCABundle c w) = None
       \<and> writes (snd (syncTrustedCABundle c w)) = writes w @ [Create_call c, Update_call c]"
  using assms
  by (simp add: syncTrustedCABundle_def Let_def configMapsEqual_def ConfigMap_zero_def
      index_map_def client_Create_def client_Update_def)

text \<open>Every candidate that \<^verbatim>\<open>Reconcile\<close> builds has the identity of the derived
  ConfigMap.\<close>

lemma mergeTrustBundlesToConfigMap_identity:
  "mergeTrustBundlesToConfigMap r a s = Inr cm
   \<Longrightarrow> key_of (cm_ObjectMeta cm) = names_TrustedCABundleConfigMap"
  by (auto simp: mergeTrustBundlesToConfigMap_def key_of_def names_TrustedCABundleConfigMap_def
      Let_def split: if_splits sum.splits)

lemma generateSystemTrustBundle_identity:
  "generateSystemTrustBundle r = Inr cm
   \<Longrightarrow> key_of (cm_ObjectMeta cm) = names_TrustedCABundleConfigMap"
  by (auto simp: generateSystemTrustBundle_def key_of_def names_TrustedCABundleConfigMap_def
      split: sum.splits)

lemma Reconcile_switch_candidate_identity:
  assumes "Reconcile_switch r request w = (Proceed tb, w')"
  shows "key_of (cm_ObjectMeta tb) = names_TrustedCABundleConfigMap"
proof -
  have "Reconcile_proxy r request w = (Proceed tb, w')
        \<or> Reconcile_configmap r request w = (Proceed tb, w')"
    using assms by (auto simp: Reconcile_switch_def split: if_splits)
  then show ?thesis
    using Reconcile_proxy_Proceed[of r request w tb w']
      Reconcile_configmap_Proceed[of r request w tb w']
    by (auto split: if_splits
        dest: mergeTrustBundlesToConfigMap_identity generateSystemTrustBundle_identity)
qed

text \<open>The example world.\<close>

lemma example_world_Get_Proxy:
  "client_Get_Proxy example_world names_Proxy = Inr example_proxy"
  by (simp add: client_Get_Proxy_def client_Get_def example_world_def)

lemma example_world_Get_source:
  "client_Get_ConfigMap example_world \<lparr>nn_Namespace = ''openshift-config'', nn_Name = ''custom-ca''\<rparr>
     = Inr example_source"
  by (simp add: client_Get_ConfigMap_def client_Get_def example_world_def)

lemma example_world_Get_other:
  "client_Get_ConfigMap example_world \<lparr>nn_Namespace = ''openshift-config'', nn_Name = ''other-ca''\<rparr>
     = Inr example_other"
  by (simp add: client_Get_ConfigMap_def client_Get_def example_world_def)

lemma example_world_Get_derived:
  "client_Get_ConfigMap example_world names_TrustedCABundleConfigMap
     = Inl (NotFoundError names_TrustedCABundleConfigMap)"
  by (simp add: client_Get_ConfigMap_def client_Get_def example_world_def
      names_TrustedCABundleConfigMap_def TRUSTED_CA_BUNDLE_CONFIGMAP_NS_def
      TRUSTED_CA_BUNDLE_CONFIGMAP_def)

lemma example_world_fields:
  "faults example_world = (\<lambda>v k key. None)"
  "writes example_world = []"
  "status example_world = []"
  "configMaps example_world
     \<lparr>nn_Namespace = TRUSTED_CA_BUNDLE_CONFIGMAP_NS, nn_Name = TRUSTED_CA_BUNDLE_CONFIGMAP\<rparr> = None"
  by (simp_all add: example_world_def TRUSTED_CA_BUNDLE_CONFIGMAP_NS_def
      TRUSTED_CA_BUNDLE_CONFIGMAP_def)

section \<open>Synchronising the derived ConfigMap\<close>

text \<open>
  C1. The claim: when the fetch of the derived ConfigMap reports not-found,
  \<^verbatim>\<open>syncTrustedCABundle\<close> makes a single \<^verbatim>\<open>Create\<close> call and no \<^verbatim>\<open>Update\<close>
  call. The code does otherwise. In the example world the derived ConfigMap does not
  exist; the synchronisation of the example candidate succeeds, and the calls it has made
  are a \<^verbatim>\<open>Create\<close> followed by an \<^verbatim>\<open>Update\<close> of the candidate: after the
  \<^verbatim>\<open>Create\<close> the function goes on to compare the candidate with the ConfigMap that
  the failed \<^verbatim>\<open>Get\<close> left empty.
\<close>

theorem syncTrustedCABundle_not_found_create_then_update:
  "client_Get_ConfigMap example_world names_TrustedCABundleConfigMap
     = Inl (NotFoundError names_TrustedCABundleConfigMap)
   \<and> fst (syncTrustedCABundle example_candidate example_world) = None
   \<and> writes (snd (syncTrustedCABundle example_candidate example_world))
     = [Create_call example_candidate, Update_call example_candidate]"
  by (simp add: example_world_Get_derived syncTrustedCABundle_def Let_def configMapsEqual_def
      ConfigMap_zero_def index_map_def example_candidate_def client_Create_def client_Update_def
      key_of_def example_world_fields)

text \<open>
  C2. After a synchronisation of a candidate that succeeded, a second synchronisation of
  the same candidate in the resulting world finds the derived ConfigMap with the
  candidate's value at the key "ca-bundle.crt", succeeds and leaves the world as it is:
  it makes no \<^verbatim>\<open>Create\<close> and no \<^verbatim>\<open>Update\<close> call. The candidate is a derived trust
  bundle, that is, it has the name and the namespace of the derived ConfigMap, as every
  candidate that \<^verbatim>\<open>Reconcile\<close> builds has (\<open>Reconcile_switch_candidate_identity\<close>).
\<close>

theorem syncTrustedCABundle_idempotent:
  assumes "syncTrustedCABundle c w = (None, w')"
    and "key_of (cm_ObjectMeta c) = names_TrustedCABundleConfigMap"
  shows "(\<exists>cur. client_Get_ConfigMap w' names_TrustedCABundleConfigMap = Inr cur
            \<and> index_map (Data cur) TRUSTED_CA_BUNDLE_CONFIGMAP_KEY
                = index_map (Data c) TRUSTED_CA_BUNDLE_CONFIGMAP_KEY)
       \<and> syncTrustedCABundle c w' = (None, w')
       \<and> writes (snd (syncTrustedCABundle c w')) = writes w'"
  using syncTrustedCABundle_success_stored[OF assms] syncTrustedCABundle_found_equal
  by fastforce

theorem syncTrustedCABundle_idempotent_witness:
  "key_of (cm_ObjectMeta example_candidate) = names_TrustedCABundleConfigMap
   \<and> fst (syncTrustedCABundle example_candidate example_world) = None
   \<and> syncTrustedCABundle example_candidate
       (snd (syncTrustedCABundle example_candidate example_world))
     = (None, snd (syncTrustedCABundle example_candidate example_world))"
proof -
  have k: "key_of (cm_ObjectMeta example_candidate) = names_TrustedCABundleConfigMap"
    by (simp add: key_of_def example_candidate_def names_TrustedCABundleConfigMap_def)
  have f: "fst (syncTrustedCABundle example_candidate example_world) = None"
    by (simp add: example_world_Get_derived syncTrustedCABundle_def Let_def configMapsEqual_def
        ConfigMap_zero_def index_map_def example_candidate_def client_Create_def client_Update_def
        key_of_def example_world_fields)
  then have h: "syncTrustedCABundle example_candidate example_world
                = (None, snd (syncTrustedCABundle example_candidate example_world))"
    by (simp add: prod_eq_iff)
  show ?thesis
    using k f syncTrustedCABundle_idempotent[OF h k] by simp
qed

section \<open>The two triggers\<close>

text \<open>
  C3. In one and the same world, when the reconciliation of the request for the proxy
  "cluster" and the reconciliation of a request for a ConfigMap in "openshift-config" both
  reach the synchronisation, they hand the same ConfigMap to it, hence the same bytes.
\<close>

theorem Reconcile_dual_trigger:
  assumes "Reconcile_switch r names_Proxy w = (Proceed tb1, w1)"
    and "nn_Namespace request = ADDL_TRUST_BUNDLE_CONFIGMAP_NS"
    and "Reconcile_switch r request w = (Proceed tb2, w2)"
  shows "tb1 = tb2"
proof -
  have ne: "request \<noteq> names_Proxy" using assms(2) by (rule addl_ns_not_proxy)
  have "Reconcile_proxy r names_Proxy w = (Proceed tb1, w1)"
    using assms(1) by (simp add: Reconcile_switch_def)
  from Reconcile_proxy_Proceed[OF this] obtain p where
    p: "client_Get_Proxy w names_Proxy = Inr p" and
    c1: "if isSpecTrustedCASet (Spec p)
         then \<exists>a s. validateTrustedCA r w (ref_Name (TrustedCA (Spec p))) = Inr (a, s)
                   \<and> mergeTrustBundlesToConfigMap r a s = Inr tb1
         else generateSystemTrustBundle r = Inr tb1" by blast
  have "Reconcile_configmap r request w = (Proceed tb2, w2)"
    using assms(2,3) ne by (simp add: Reconcile_switch_def)
  from Reconcile_configmap_Proceed[OF this] p have
    c2: "if isSpecTrustedCASet (Spec p)
         then \<exists>a s. validateTrustedCA r w (ref_Name (TrustedCA (Spec p))) = Inr (a, s)
                   \<and> mergeTrustBundlesToConfigMap r a s = Inr tb2
         else generateSystemTrustBundle r = Inr tb2" by auto
  show ?thesis
  proof (cases "isSpecTrustedCASet (Spec p)")
    case True
    with c1 c2 show ?thesis by auto
  next
    case False
    with c1 c2 show ?thesis by simp
  qed
qed

theorem Reconcile_dual_trigger_witness:
  "nn_Namespace \<lparr>nn_Namespace = ''openshift-config'', nn_Name = ''custom-ca''\<rparr>
     = ADDL_TRUST_BUNDLE_CONFIGMAP_NS
   \<and> (\<exists>tb. fst (Reconcile_switch example_reconciler names_Proxy example_world) = Proceed tb
          \<and> fst (Reconcile_switch example_reconciler
                   \<lparr>nn_Namespace = ''openshift-config'', nn_Name = ''custom-ca''\<rparr> example_world)
            = Proceed tb
          \<and> index_map (Data tb) TRUSTED_CA_BUNDLE_CONFIGMAP_KEY = ''CUSTOMSYSTEM'')"
proof -
  let ?req = "\<lparr>nn_Namespace = ''openshift-config'', nn_Name = ''custom-ca''\<rparr>"
  have ns: "nn_Namespace ?req = ADDL_TRUST_BUNDLE_CONFIGMAP_NS"
    by (simp add: ADDL_TRUST_BUNDLE_CONFIGMAP_NS_def)
  have vca: "validateTrustedCA example_reconciler example_world ''custom-ca''
             = Inr (''CUSTOM'', ''SYSTEM'')"
    by (simp add: example_reconciler_def ADDL_TRUST_BUNDLE_CONFIGMAP_NS_def
        example_world_Get_source index_map_def example_source_def
        TRUSTED_CA_BUNDLE_CONFIGMAP_KEY_def)
  have mg: "mergeTrustBundlesToConfigMap example_reconciler ''CUSTOM'' ''SYSTEM''
            = Inr example_candidate"
    by (simp add: mergeTrustBundlesToConfigMap_def append_range_eq example_reconciler_def
        example_candidate_def)
  have infra: "\<exists>i. client_Get_Infrastructure example_world
                 \<lparr>nn_Namespace = [], nn_Name = CLUSTER_CONFIG example_reconciler\<rparr> = Inr i"
    by (simp add: client_Get_Infrastructure_def client_Get_def example_world_def
        example_reconciler_def)
  have net: "\<exists>n. client_Get_Network example_world
               \<lparr>nn_Namespace = [], nn_Name = CLUSTER_CONFIG example_reconciler\<rparr> = Inr n"
    by (simp add: client_Get_Network_def client_Get_def example_world_def
        example_reconciler_def)
  have cc: "client_Get_ConfigMap example_world
              \<lparr>nn_Namespace = ''kube-system'', nn_Name = ''cluster-config-v1''\<rparr>
            = Inr example_cluster_config"
    by (simp add: client_Get_ConfigMap_def client_Get_def example_world_def)
  have sp: "syncProxyStatus example_reconciler = (\<lambda>proxy infra network clusterConfig w. (None, w))"
    by (simp add: example_reconciler_def)
  have vp: "ValidateProxyConfig example_reconciler example_world (Spec example_proxy) = None"
    by (simp add: example_reconciler_def example_proxy_def)
  have sp_name: "ref_Name (TrustedCA (Spec example_proxy)) = ''custom-ca''"
    by (simp add: example_proxy_def)
  have h1: "Reconcile_switch example_reconciler names_Proxy example_world
            = (Proceed example_candidate, example_world)"
    using infra net
    by (auto simp: Reconcile_switch_def Reconcile_proxy_def example_world_Get_Proxy Let_def vp
        isSpecTrustedCASet_def sp_name vca mg cc sp)
  have cm_name: "Name (cm_ObjectMeta example_source) = ''custom-ca''"
    by (simp add: example_source_def)
  have adm: "configMapIsProxyTrustedCA example_world ''custom-ca'' = None"
    by (simp add: configMapIsProxyTrustedCA_def example_world_Get_Proxy sp_name)
  have h2: "Reconcile_switch example_reconciler ?req example_world
            = (Proceed example_candidate, example_world)"
    using addl_ns_not_proxy[OF ns]
    by (simp add: Reconcile_switch_def Reconcile_configmap_def example_world_Get_source cm_name
        ADDL_TRUST_BUNDLE_CONFIGMAP_NS_def
        adm vca mg example_world_Get_Proxy Let_def vp isSpecTrustedCASet_def sp_name)
  have "index_map (Data example_candidate) TRUSTED_CA_BUNDLE_CONFIGMAP_KEY = ''CUSTOMSYSTEM''"
    by (simp add: index_map_def example_candidate_def)
  moreover have "example_candidate = example_candidate"
    by (rule Reconcile_dual_trigger[OF h1 ns h2])
  ultimately show ?thesis
    using ns h1 h2 by simp
qed

section \<open>Merging the trust bundles\<close>

text \<open>
  C4. When both inputs are non-empty and the merged ConfigMap passes the validation of
  the trust bundle, \<^verbatim>\<open>mergeTrustBundlesToConfigMap\<close> returns a ConfigMap whose only
  key "ca-bundle.crt" holds the bytes of the additional bundle followed at once by the
  bytes of the system bundle, nothing added, dropped or changed: the value starts with
  the additional bundle and ends with the system bundle.
\<close>

theorem mergeTrustBundlesToConfigMap_concat:
  assumes "additionalData \<noteq> []" and "systemData \<noteq> []"
    and "validateTrustBundle r
           \<lparr>cm_ObjectMeta =
              \<lparr>Name = TRUSTED_CA_BUNDLE_CONFIGMAP, Namespace = TRUSTED_CA_BUNDLE_CONFIGMAP_NS\<rparr>,
            Data = [TRUSTED_CA_BUNDLE_CONFIGMAP_KEY \<mapsto> additionalData @ systemData]\<rparr> = Inr ok"
  shows "\<exists>cm. mergeTrustBundlesToConfigMap r additionalData systemData = Inr cm
           \<and> Data cm TRUSTED_CA_BUNDLE_CONFIGMAP_KEY = Some (additionalData @ systemData)
           \<and> dom (Data cm) = {TRUSTED_CA_BUNDLE_CONFIGMAP_KEY}
           \<and> prefix additionalData (index_map (Data cm) TRUSTED_CA_BUNDLE_CONFIGMAP_KEY)
           \<and> suffix systemData (index_map (Data cm) TRUSTED_CA_BUNDLE_CONFIGMAP_KEY)"
  using assms
  by (simp add: mergeTrustBundlesToConfigMap_def append_range_eq index_map_def suffix_def)

theorem mergeTrustBundlesToConfigMap_concat_witness:
  "''CUSTOM'' \<noteq> [] \<and> ''SYSTEM'' \<noteq> []
   \<and> (\<exists>cm. mergeTrustBundlesToConfigMap example_reconciler ''CUSTOM'' ''SYSTEM'' = Inr cm
          \<and> Data cm TRUSTED_CA_BUNDLE_CONFIGMAP_KEY = Some ''CUSTOMSYSTEM'')"
proof -
  have a: "''CUSTOM'' \<noteq> []" and s: "''SYSTEM'' \<noteq> []" by simp_all
  have v: "validateTrustBundle example_reconciler
             \<lparr>cm_ObjectMeta =
                \<lparr>Name = TRUSTED_CA_BUNDLE_CONFIGMAP, Namespace = TRUSTED_CA_BUNDLE_CONFIGMAP_NS\<rparr>,
              Data = [TRUSTED_CA_BUNDLE_CONFIGMAP_KEY \<mapsto> ''CUSTOM'' @ ''SYSTEM'']\<rparr>
           = Inr ([], ''CUSTOMSYSTEM'')"
    by (simp add: example_reconciler_def index_map_def)
  show ?thesis
    using mergeTrustBundlesToConfigMap_concat[OF a s v] by auto
qed

text \<open>
  C5. \<^verbatim>\<open>mergeTrustBundlesToConfigMap\<close> rejects an empty input. With an empty
  additional bundle it returns the error "failed to merge ca bundles, additional trust
  bundle is empty", whatever the system bundle is; with a non-empty additional bundle
  and an empty system bundle it returns the error "failed to merge ca bundles, system
  trust bundle is empty"; so with an empty system bundle it returns an error for every
  additional bundle. An error result carries no ConfigMap.
\<close>

theorem mergeTrustBundlesToConfigMap_empty:
  "mergeTrustBundlesToConfigMap r [] systemData =
     Inl (Errorf ''failed to merge ca bundles, additional trust bundle is empty'' [])
   \<and> mergeTrustBundlesToConfigMap r (a # additionalData) [] =
     Inl (Errorf ''failed to merge ca bundles, system trust bundle is empty'' [])
   \<and> isl (mergeTrustBundlesToConfigMap r additionalData' [])"
  by (simp add: mergeTrustBundlesToConfigMap_def)

section \<open>Early returns of Reconcile\<close>

text \<open>
  C6. A request for a ConfigMap in "openshift-config" whose fetched ConfigMap has a name
  other than the one that the trustedCA of the proxy "cluster" refers to (which includes
  a trustedCA that is not set, the name of the fetched ConfigMap being non-empty):
  \<^verbatim>\<open>Reconcile\<close> returns the zero result and no error and leaves the world as it is,
  so it makes no call to the status manager and no \<^verbatim>\<open>Create\<close> or \<^verbatim>\<open>Update\<close>
  call.
\<close>

theorem Reconcile_reference_mismatch:
  assumes "nn_Namespace request = ADDL_TRUST_BUNDLE_CONFIGMAP_NS"
    and "client_Get_ConfigMap w request = Inr cm"
    and "client_Get_Proxy w names_Proxy = Inr p"
    and "ref_Name (TrustedCA (Spec p)) \<noteq> Name (cm_ObjectMeta cm)
         \<or> \<not> isSpecTrustedCASet (Spec p) \<and> Name (cm_ObjectMeta cm) \<noteq> []"
  shows "Reconcile r request w = ((Result_zero, None), w)"
proof -
  have ne: "request \<noteq> names_Proxy" using assms(1) by (rule addl_ns_not_proxy)
  have "ref_Name (TrustedCA (Spec p)) \<noteq> Name (cm_ObjectMeta cm)"
    using assms(4) by (auto simp: isSpecTrustedCASet_def)
  then have "configMapIsProxyTrustedCA w (Name (cm_ObjectMeta cm)) \<noteq> None"
    using assms(3) by (simp add: configMapIsProxyTrustedCA_def)
  then show ?thesis
    using ne assms(1,2)
    by (auto simp: Reconcile_def Reconcile_switch_def Reconcile_configmap_def)
qed

theorem Reconcile_reference_mismatch_witness:
  "nn_Namespace \<lparr>nn_Namespace = ''openshift-config'', nn_Name = ''other-ca''\<rparr>
     = ADDL_TRUST_BUNDLE_CONFIGMAP_NS
   \<and> client_Get_ConfigMap example_world \<lparr>nn_Namespace = ''openshift-config'', nn_Name = ''other-ca''\<rparr>
     = Inr example_other
   \<and> client_Get_Proxy example_world names_Proxy = Inr example_proxy
   \<and> ref_Name (TrustedCA (Spec example_proxy)) \<noteq> Name (cm_ObjectMeta example_other)
   \<and> Reconcile example_reconciler \<lparr>nn_Namespace = ''openshift-config'', nn_Name = ''other-ca''\<rparr>
       example_world
     = ((Result_zero, None), example_world)"
proof -
  have ns: "nn_Namespace \<lparr>nn_Namespace = ''openshift-config'', nn_Name = ''other-ca''\<rparr>
            = ADDL_TRUST_BUNDLE_CONFIGMAP_NS"
    by (simp add: ADDL_TRUST_BUNDLE_CONFIGMAP_NS_def)
  have d: "ref_Name (TrustedCA (Spec example_proxy)) \<noteq> Name (cm_ObjectMeta example_other)"
    by (simp add: example_proxy_def example_other_def)
  then have d': "ref_Name (TrustedCA (Spec example_proxy)) \<noteq> Name (cm_ObjectMeta example_other)
                 \<or> \<not> isSpecTrustedCASet (Spec example_proxy)
                   \<and> Name (cm_ObjectMeta example_other) \<noteq> []"
    by simp
  show ?thesis
    using ns d example_world_Get_other example_world_Get_Proxy
      Reconcile_reference_mismatch[OF ns example_world_Get_other example_world_Get_Proxy d',
        where r = example_reconciler]
    by simp
qed

text \<open>
  C7. When the first fetch of \<^verbatim>\<open>Reconcile\<close> fails (the proxy for the request of the
  proxy "cluster", the ConfigMap for a request in "openshift-config"): with a not-found
  error \<^verbatim>\<open>Reconcile\<close> returns the zero result and no error and leaves the world as
  it is (no call to the status manager, no \<^verbatim>\<open>Create\<close> or \<^verbatim>\<open>Update\<close> call); with
  any other error it returns an error.
\<close>

theorem Reconcile_fetch_error:
  assumes "request = names_Proxy \<and> client_Get_Proxy w request = Inl err
         \<or> nn_Namespace request = ADDL_TRUST_BUNDLE_CONFIGMAP_NS
           \<and> client_Get_ConfigMap w request = Inl err"
  shows "(IsNotFound err \<longrightarrow> Reconcile r request w = ((Result_zero, None), w))
       \<and> (\<not> IsNotFound err \<longrightarrow> (\<exists>e. Reconcile r request w = ((Result_zero, Some e), w)))"
  using assms addl_ns_not_proxy[of request]
  by (auto simp: Reconcile_def Reconcile_switch_def Reconcile_proxy_def Reconcile_configmap_def)

theorem Reconcile_fetch_error_witness:
  "client_Get_Proxy (example_world\<lparr>proxies := Map.empty\<rparr>) names_Proxy
     = Inl (NotFoundError names_Proxy)
   \<and> IsNotFound (NotFoundError names_Proxy)
   \<and> Reconcile example_reconciler names_Proxy (example_world\<lparr>proxies := Map.empty\<rparr>)
     = ((Result_zero, None), example_world\<lparr>proxies := Map.empty\<rparr>)
   \<and> nn_Namespace \<lparr>nn_Namespace = ''openshift-config'', nn_Name = ''custom-ca''\<rparr>
     = ADDL_TRUST_BUNDLE_CONFIGMAP_NS
   \<and> client_Get_ConfigMap
       (example_world\<lparr>faults := (\<lambda>v k key. if k = ConfigMapKind then Some ''timeout'' else None)\<rparr>)
       \<lparr>nn_Namespace = ''openshift-config'', nn_Name = ''custom-ca''\<rparr>
     = Inl (OtherError ''timeout'')
   \<and> \<not> IsNotFound (OtherError ''timeout'')
   \<and> (\<exists>e. Reconcile example_reconciler \<lparr>nn_Namespace = ''openshift-config'', nn_Name = ''custom-ca''\<rparr>
            (example_world\<lparr>faults := (\<lambda>v k key. if k = ConfigMapKind then Some ''timeout'' else None)\<rparr>)
          = ((Result_zero, Some e),
             example_world\<lparr>faults := (\<lambda>v k key. if k = ConfigMapKind then Some ''timeout'' else None)\<rparr>))"
proof -
  let ?w1 = "example_world\<lparr>proxies := Map.empty\<rparr>"
  let ?w2 = "example_world\<lparr>faults := (\<lambda>v k key. if k = ConfigMapKind then Some ''timeout'' else None)\<rparr>"
  let ?req = "\<lparr>nn_Namespace = ''openshift-config'', nn_Name = ''custom-ca''\<rparr>"
  have g1: "client_Get_Proxy ?w1 names_Proxy = Inl (NotFoundError names_Proxy)"
    by (simp add: client_Get_Proxy_def client_Get_def example_world_fields)
  have ns: "nn_Namespace ?req = ADDL_TRUST_BUNDLE_CONFIGMAP_NS"
    by (simp add: ADDL_TRUST_BUNDLE_CONFIGMAP_NS_def)
  have g2: "client_Get_ConfigMap ?w2 ?req = Inl (OtherError ''timeout'')"
    by (simp add: client_Get_ConfigMap_def client_Get_def)
  have a1: "names_Proxy = names_Proxy \<and> client_Get_Proxy ?w1 names_Proxy = Inl (NotFoundError names_Proxy)
          \<or> nn_Namespace names_Proxy = ADDL_TRUST_BUNDLE_CONFIGMAP_NS
            \<and> client_Get_ConfigMap ?w1 names_Proxy = Inl (NotFoundError names_Proxy)"
    using g1 by simp
  have a2: "?req = names_Proxy \<and> client_Get_Proxy ?w2 ?req = Inl (OtherError ''timeout'')
          \<or> nn_Namespace ?req = ADDL_TRUST_BUNDLE_CONFIGMAP_NS
            \<and> client_Get_ConfigMap ?w2 ?req = Inl (OtherError ''timeout'')"
    using ns g2 by simp
  show ?thesis
    using g1 ns g2 Reconcile_fetch_error[OF a1, where r = example_reconciler]
      Reconcile_fetch_error[OF a2, where r = example_reconciler]
    by simp
qed

section \<open>Validation of the proxy\<close>

text \<open>
  C8. When httpProxy, httpsProxy and noProxy of the proxy "cluster" are all empty,
  \<^verbatim>\<open>Reconcile\<close> does not call \<^verbatim>\<open>ValidateProxyConfig\<close>: for every request, hence
  on both paths, its result and the world it leaves are the same whatever
  \<^verbatim>\<open>ValidateProxyConfig\<close> would return, also for a validator that rejects every
  proxy. Nothing is assumed about readinessEndpoints.
\<close>

theorem Reconcile_validation_skipped:
  assumes "client_Get_Proxy w names_Proxy = Inr p"
    and "HTTPProxy (Spec p) = []" and "HTTPSProxy (Spec p) = []" and "NoProxy (Spec p) = []"
  shows "Reconcile (r\<lparr>ValidateProxyConfig := v\<rparr>) request w
       = Reconcile (r\<lparr>ValidateProxyConfig := v'\<rparr>) request w"
proof -
  have p: "Reconcile_proxy (r\<lparr>ValidateProxyConfig := v\<rparr>) names_Proxy w
         = Reconcile_proxy (r\<lparr>ValidateProxyConfig := v'\<rparr>) names_Proxy w"
    using assms
    by (simp add: Reconcile_proxy_def isSpecHTTPProxySet_def isSpecHTTPSProxySet_def
        isSpecNoProxySet_def merge_ValidateProxyConfig_update generate_ValidateProxyConfig_update
        Let_def cong: if_cong sum.case_cong option.case_cong prod.case_cong flow.case_cong)
  have c: "Reconcile_configmap (r\<lparr>ValidateProxyConfig := v\<rparr>) request w
         = Reconcile_configmap (r\<lparr>ValidateProxyConfig := v'\<rparr>) request w"
    using assms
    by (simp add: Reconcile_configmap_def isSpecHTTPProxySet_def isSpecHTTPSProxySet_def
        isSpecNoProxySet_def merge_ValidateProxyConfig_update generate_ValidateProxyConfig_update
        Let_def cong: if_cong sum.case_cong option.case_cong prod.case_cong flow.case_cong)
  show ?thesis
    by (simp add: Reconcile_def Reconcile_switch_def p c)
qed

theorem Reconcile_validation_skipped_witness:
  "client_Get_Proxy (example_world\<lparr>proxies := [names_Proxy \<mapsto> example_proxy_unset]\<rparr>) names_Proxy
     = Inr example_proxy_unset
   \<and> HTTPProxy (Spec example_proxy_unset) = []
   \<and> HTTPSProxy (Spec example_proxy_unset) = []
   \<and> NoProxy (Spec example_proxy_unset) = []
   \<and> ReadinessEndpoints (Spec example_proxy_unset) = [''::not an endpoint::'']
   \<and> Reconcile (example_reconciler\<lparr>ValidateProxyConfig := (\<lambda>w spec. Some (OtherError ''invalid''))\<rparr>)
       names_Proxy (example_world\<lparr>proxies := [names_Proxy \<mapsto> example_proxy_unset]\<rparr>)
     = Reconcile (example_reconciler\<lparr>ValidateProxyConfig := (\<lambda>w spec. None)\<rparr>)
       names_Proxy (example_world\<lparr>proxies := [names_Proxy \<mapsto> example_proxy_unset]\<rparr>)"
proof -
  let ?w = "example_world\<lparr>proxies := [names_Proxy \<mapsto> example_proxy_unset]\<rparr>"
  have g: "client_Get_Proxy ?w names_Proxy = Inr example_proxy_unset"
    by (simp add: client_Get_Proxy_def client_Get_def example_world_fields)
  have h1: "HTTPProxy (Spec example_proxy_unset) = []"
    and h2: "HTTPSProxy (Spec example_proxy_unset) = []"
    and h3: "NoProxy (Spec example_proxy_unset) = []"
    and h4: "ReadinessEndpoints (Spec example_proxy_unset) = [''::not an endpoint::'']"
    by (simp_all add: example_proxy_unset_def)
  show ?thesis
    using g h1 h2 h3 h4
      Reconcile_validation_skipped[OF g h1 h2 h3, where r = example_reconciler
        and v = "\<lambda>w spec. Some (OtherError ''invalid'')" and v' = "\<lambda>w spec. None"
        and request = names_Proxy]
    by simp
qed

text \<open>
  C9. A request for the proxy "cluster" whose proxy is validated (one of httpProxy,
  httpsProxy and noProxy is set) and fails the validation: \<^verbatim>\<open>Reconcile\<close> returns
  from the switch, so it does not reach the synchronisation, it returns an error, and the
  world it leaves differs from the one it started in by one more call to the status
  manager, \<^verbatim>\<open>SetDegraded\<close> with the reason "InvalidProxyConfig"; the ConfigMaps of the
  store and the list of \<^verbatim>\<open>Create\<close> and \<^verbatim>\<open>Update\<close> calls are as before.
\<close>

theorem Reconcile_invalid_proxy:
  assumes "client_Get_Proxy w names_Proxy = Inr p"
    and "isSpecHTTPProxySet (Spec p) \<or> isSpecHTTPSProxySet (Spec p) \<or> isSpecNoProxySet (Spec p)"
    and "ValidateProxyConfig r w (Spec p) = Some err"
  shows "\<exists>e m. Reconcile_switch r names_Proxy w =
                  (Return Result_zero (Some e),
                   w\<lparr>status := status w @ [SetDegraded_call ProxyConfig ''InvalidProxyConfig'' m]\<rparr>)
              \<and> Reconcile r names_Proxy w =
                  ((Result_zero, Some e),
                   w\<lparr>status := status w @ [SetDegraded_call ProxyConfig ''InvalidProxyConfig'' m]\<rparr>)"
  using assms
  by (auto simp: Reconcile_def Reconcile_switch_def Reconcile_proxy_def SetDegraded_def Let_def)

theorem Reconcile_invalid_proxy_witness:
  "client_Get_Proxy (example_world\<lparr>proxies := [names_Proxy \<mapsto> example_proxy_invalid]\<rparr>) names_Proxy
     = Inr example_proxy_invalid
   \<and> isSpecHTTPProxySet (Spec example_proxy_invalid)
   \<and> ValidateProxyConfig example_reconciler
       (example_world\<lparr>proxies := [names_Proxy \<mapsto> example_proxy_invalid]\<rparr>)
       (Spec example_proxy_invalid)
     = Some (OtherError ''httpProxy is not a URL'')
   \<and> (\<exists>e m. Reconcile example_reconciler names_Proxy
                (example_world\<lparr>proxies := [names_Proxy \<mapsto> example_proxy_invalid]\<rparr>)
              = ((Result_zero, Some e),
                 example_world\<lparr>proxies := [names_Proxy \<mapsto> example_proxy_invalid],
                               status := [SetDegraded_call ProxyConfig ''InvalidProxyConfig'' m]\<rparr>))"
proof -
  let ?w = "example_world\<lparr>proxies := [names_Proxy \<mapsto> example_proxy_invalid]\<rparr>"
  have g: "client_Get_Proxy ?w names_Proxy = Inr example_proxy_invalid"
    by (simp add: client_Get_Proxy_def client_Get_def example_world_fields)
  have s: "isSpecHTTPProxySet (Spec example_proxy_invalid)"
    by (simp add: isSpecHTTPProxySet_def example_proxy_invalid_def)
  then have s': "isSpecHTTPProxySet (Spec example_proxy_invalid)
                 \<or> isSpecHTTPSProxySet (Spec example_proxy_invalid)
                 \<or> isSpecNoProxySet (Spec example_proxy_invalid)"
    by simp
  have v: "ValidateProxyConfig example_reconciler ?w (Spec example_proxy_invalid)
           = Some (OtherError ''httpProxy is not a URL'')"
    by (simp add: example_reconciler_def example_proxy_invalid_def)
  show ?thesis
    using g s v Reconcile_invalid_proxy[OF g s' v]
    by (auto simp: example_world_fields)
qed

text \<open>
  C10. In the case of the switch for a ConfigMap in "openshift-config": when the fetched
  ConfigMap has a non-empty name and \<^verbatim>\<open>configMapIsProxyTrustedCA\<close> accepts that name,
  the proxy "cluster" that is fetched again later in the same world has its trustedCA
  set, so the branch that calls \<^verbatim>\<open>generateSystemTrustBundle\<close> is not taken: the
  result of \<^verbatim>\<open>Reconcile\<close> and the world it leaves are the same whatever
  \<^verbatim>\<open>validateSystemTrustBundle\<close>, which only \<^verbatim>\<open>generateSystemTrustBundle\<close> calls,
  would return.
\<close>

theorem Reconcile_configmap_trustedCA_set:
  assumes "nn_Namespace request = ADDL_TRUST_BUNDLE_CONFIGMAP_NS"
    and "client_Get_ConfigMap w request = Inr cm"
    and "Name (cm_ObjectMeta cm) \<noteq> []"
    and "configMapIsProxyTrustedCA w (Name (cm_ObjectMeta cm)) = None"
  shows "(\<exists>p. client_Get_Proxy w names_Proxy = Inr p \<and> isSpecTrustedCASet (Spec p))
       \<and> Reconcile (r\<lparr>validateSystemTrustBundle := g\<rparr>) request w
         = Reconcile (r\<lparr>validateSystemTrustBundle := g'\<rparr>) request w"
proof -
  obtain p where p: "client_Get_Proxy w names_Proxy = Inr p"
    and nm: "ref_Name (TrustedCA (Spec p)) = Name (cm_ObjectMeta cm)"
    using assms(4) by (auto simp: configMapIsProxyTrustedCA_def split: sum.splits if_splits)
  have set: "isSpecTrustedCASet (Spec p)"
    using nm assms(3) by (simp add: isSpecTrustedCASet_def)
  have ne: "request \<noteq> names_Proxy" using assms(1) by (rule addl_ns_not_proxy)
  have "Reconcile_configmap (r\<lparr>validateSystemTrustBundle := g\<rparr>) request w
      = Reconcile_configmap (r\<lparr>validateSystemTrustBundle := g'\<rparr>) request w"
    using assms(2,4) p set
    by (simp add: Reconcile_configmap_def merge_validateSystemTrustBundle_update Let_def
        cong: if_cong sum.case_cong option.case_cong prod.case_cong flow.case_cong)
  then show ?thesis
    using p set ne assms(1) by (simp add: Reconcile_def Reconcile_switch_def)
qed

theorem Reconcile_configmap_trustedCA_set_witness:
  "nn_Namespace \<lparr>nn_Namespace = ''openshift-config'', nn_Name = ''custom-ca''\<rparr>
     = ADDL_TRUST_BUNDLE_CONFIGMAP_NS
   \<and> client_Get_ConfigMap example_world \<lparr>nn_Namespace = ''openshift-config'', nn_Name = ''custom-ca''\<rparr>
     = Inr example_source
   \<and> Name (cm_ObjectMeta example_source) \<noteq> []
   \<and> configMapIsProxyTrustedCA example_world (Name (cm_ObjectMeta example_source)) = None
   \<and> isSpecTrustedCASet (Spec example_proxy)
   \<and> Reconcile (example_reconciler\<lparr>validateSystemTrustBundle := (\<lambda>path. Inl (OtherError ''no file''))\<rparr>)
       \<lparr>nn_Namespace = ''openshift-config'', nn_Name = ''custom-ca''\<rparr> example_world
     = Reconcile (example_reconciler\<lparr>validateSystemTrustBundle := (\<lambda>path. Inr ''SYSTEM'')\<rparr>)
       \<lparr>nn_Namespace = ''openshift-config'', nn_Name = ''custom-ca''\<rparr> example_world"
proof -
  let ?req = "\<lparr>nn_Namespace = ''openshift-config'', nn_Name = ''custom-ca''\<rparr>"
  have ns: "nn_Namespace ?req = ADDL_TRUST_BUNDLE_CONFIGMAP_NS"
    by (simp add: ADDL_TRUST_BUNDLE_CONFIGMAP_NS_def)
  have n: "Name (cm_ObjectMeta example_source) \<noteq> []"
    by (simp add: example_source_def)
  have adm: "configMapIsProxyTrustedCA example_world (Name (cm_ObjectMeta example_source)) = None"
    by (simp add: configMapIsProxyTrustedCA_def example_world_Get_Proxy example_proxy_def
        example_source_def)
  have t: "isSpecTrustedCASet (Spec example_proxy)"
    by (simp add: isSpecTrustedCASet_def example_proxy_def)
  show ?thesis
    using ns n adm t example_world_Get_source
      Reconcile_configmap_trustedCA_set[OF ns example_world_Get_source n adm,
        where r = example_reconciler and g = "\<lambda>path. Inl (OtherError ''no file'')"
        and g' = "\<lambda>path. Inr ''SYSTEM''"]
    by simp
qed

end
